theory Spec2Isabelle
  imports Main "HOL-Library.Multiset"
begin

section \<open>The red-black tree of \<^verbatim>\<open>pkg/buffer/rbtree.go\<close>\<close>

text \<open>
  The Go tree is a pointer structure: every \<^verbatim>\<open>Node\<close> carries \<^verbatim>\<open>Key\<close>, \<^verbatim>\<open>Value\<close>,
  \<^verbatim>\<open>Color\<close> and the links \<^verbatim>\<open>Left\<close>, \<^verbatim>\<open>Right\<close>, \<^verbatim>\<open>Parent\<close>; one shared sentinel
  \<^verbatim>\<open>t.Nil\<close> (black, its own links the Go \<^verbatim>\<open>nil\<close>) stands for "no child" and for the
  parent of the root.

  The embedding keeps the downward links as a datatype and the upward links as a path:
  a pointer to a node is the subtree hanging at that node together with the list of its
  ancestors, nearest first. Each ancestor is a frame holding that node's own fields, which
  child the pointed-at node is, and the ancestor's other child. \<^verbatim>\<open>x.Parent\<close> is the first
  frame, \<^verbatim>\<open>x.Parent.Parent\<close> the second; \<^verbatim>\<open>x == t.Root\<close> is the empty path. The sentinel's
  \<^verbatim>\<open>Parent\<close> field, which \<^verbatim>\<open>transplant\<close> and \<^verbatim>\<open>Delete\<close> assign so that the fix-up can
  climb from it, is the path of a \<open>NilNode\<close> focus.

  Go's \<^verbatim>\<open>int\<close> is modelled by \<open>int\<close>. A nil dereference panics in Go; the tree operations
  return \<open>None\<close> there.
\<close>

datatype Color = Red | Black

datatype 'v Node = NilNode | Node int 'v Color "'v Node" "'v Node"
  \<comment> \<open>\<open>Node Key Value Color Left Right\<close>\<close>

datatype side = LeftChild | RightChild

datatype 'v frame = Frame side int 'v Color "'v Node"
  \<comment> \<open>the parent's \<open>Key Value Color\<close>, and its other child\<close>

type_synonym 'v path = "'v frame list"

fun color :: "'v Node \<Rightarrow> Color" where
  "color NilNode = Black"
| "color (Node k v c l r) = c"

fun set_color :: "Color \<Rightarrow> 'v Node \<Rightarrow> 'v Node" where
  "set_color c' NilNode = NilNode"
| "set_color c' (Node k v c l r) = Node k v c' l r"

text \<open>The node a frame stands for, with the focus put back as its child.\<close>

fun attach :: "'v Node \<Rightarrow> 'v frame \<Rightarrow> 'v Node" where
  "attach t (Frame LeftChild k v c sib) = Node k v c t sib"
| "attach t (Frame RightChild k v c sib) = Node k v c sib t"

text \<open>\<^verbatim>\<open>t.Root\<close>, seen from a focus and its ancestors.\<close>

fun plug :: "'v Node \<Rightarrow> 'v path \<Rightarrow> 'v Node" where
  "plug t [] = t"
| "plug t (f # p) = plug (attach t f) p"

definition NewRBTree :: "'v Node" where
  "NewRBTree = NilNode"

fun searchTreeHelper :: "'v Node \<Rightarrow> int \<Rightarrow> (int \<times> 'v) option" where
  "searchTreeHelper NilNode key = None"
| "searchTreeHelper (Node k v c l r) key =
     (if key = k then Some (k, v)
      else if key < k then searchTreeHelper l key
      else searchTreeHelper r key)"

text \<open>
  \<^verbatim>\<open>Search\<close> returns the node found, or the Go \<^verbatim>\<open>nil\<close>. Its callers read only the
  \<^verbatim>\<open>Key\<close> and \<^verbatim>\<open>Value\<close> of the result; no operation of the tree that the buffer calls
  assigns these two fields of an existing node, so the pair is what the pointer gives,
  also after later deletions and insertions.
\<close>

definition Search :: "'v Node \<Rightarrow> int \<Rightarrow> (int \<times> 'v) option" where
  "Search t key = searchTreeHelper t key"

subsection \<open>Rotations\<close>

text \<open>
  \<^verbatim>\<open>leftRotate(x)\<close> and \<^verbatim>\<open>rightRotate(x)\<close> re-link \<open>x\<close> and one child and then hang the
  child where \<open>x\<close> was; the ancestors of \<open>x\<close> do not change, so the rotation is a function
  on the subtree at \<open>x\<close>. With the sentinel as that child, \<^verbatim>\<open>y.Left.Parent = x\<close> dereferences
  the Go \<^verbatim>\<open>nil\<close>.
\<close>

fun leftRotate :: "'v Node \<Rightarrow> 'v Node option" where
  "leftRotate (Node xk xv xc a (Node yk yv yc b c)) = Some (Node yk yv yc (Node xk xv xc a b) c)"
| "leftRotate _ = None"

fun rightRotate :: "'v Node \<Rightarrow> 'v Node option" where
  "rightRotate (Node xk xv xc (Node yk yv yc a b) c) = Some (Node yk yv yc a (Node xk xv xc b c))"
| "rightRotate _ = None"

subsection \<open>Insert\<close>

text \<open>The descent of \<^verbatim>\<open>Insert\<close>: left when the new key is smaller, right otherwise.\<close>

fun insert_descend :: "int \<Rightarrow> 'v Node \<Rightarrow> 'v path \<Rightarrow> 'v path" where
  "insert_descend key NilNode p = p"
| "insert_descend key (Node k v c l r) p =
     (if key < k then insert_descend key l (Frame LeftChild k v c r # p)
      else insert_descend key r (Frame RightChild k v c l # p))"

text \<open>
  \<^verbatim>\<open>fixInsert(k)\<close>. The loop runs while \<^verbatim>\<open>k.Parent.Color == Red\<close>. With a red parent that
  is the root, \<^verbatim>\<open>k.Parent.Parent\<close> is the sentinel, whose \<^verbatim>\<open>Left\<close> and \<^verbatim>\<open>Right\<close> are
  the Go \<^verbatim>\<open>nil\<close>: the uncle's colour cannot be read. After the rotations of the
  black-uncle case \<^verbatim>\<open>k.Parent\<close> is black, so the loop ends; after the recolouring of the
  red-uncle case \<open>k\<close> is the grandparent and the loop goes on from there. The last
  statement blackens the root.
\<close>

fun fixInsert :: "'v Node \<Rightarrow> 'v path \<Rightarrow> 'v Node option" where
  "fixInsert k [] = Some (set_color Black k)"
| "fixInsert k [Frame s pk pv pc sib] =
     (if pc = Red then None
      else Some (set_color Black (plug k [Frame s pk pv pc sib])))"
| "fixInsert k (Frame s pk pv pc sib # Frame gs gk gv gc u # rest) =
     (if pc \<noteq> Red then
        Some (set_color Black (plug k (Frame s pk pv pc sib # Frame gs gk gv gc u # rest)))
      else if gs = RightChild then
        (if color u = Red then
           fixInsert (Node gk gv Red (set_color Black u)
                        (set_color Black (attach k (Frame s pk pv pc sib)))) rest
         else
           (case (if s = LeftChild then rightRotate (attach k (Frame s pk pv pc sib))
                  else Some (attach k (Frame s pk pv pc sib))) of
              None \<Rightarrow> None
            | Some p' \<Rightarrow>
                (case leftRotate (Node gk gv Red u (set_color Black p')) of
                   None \<Rightarrow> None
                 | Some g' \<Rightarrow> Some (set_color Black (plug g' rest)))))
      else
        (if color u = Red then
           fixInsert (Node gk gv Red (set_color Black (attach k (Frame s pk pv pc sib)))
                        (set_color Black u)) rest
         else
           (case (if s = RightChild then leftRotate (attach k (Frame s pk pv pc sib))
                  else Some (attach k (Frame s pk pv pc sib))) of
              None \<Rightarrow> None
            | Some p' \<Rightarrow>
                (case rightRotate (Node gk gv Red (set_color Black p') u) of
                   None \<Rightarrow> None
                 | Some g' \<Rightarrow> Some (set_color Black (plug g' rest))))))"

text \<open>
  \<^verbatim>\<open>Insert\<close>: a new red node at the end of the descent; black if it is the root;
  no fix-up if its parent is the root.
\<close>

definition Insert :: "int \<Rightarrow> 'v \<Rightarrow> 'v Node \<Rightarrow> 'v Node option" where
  "Insert key val t =
     (case insert_descend key t [] of
        [] \<Rightarrow> Some (Node key val Black NilNode NilNode)
      | [f] \<Rightarrow> Some (plug (Node key val Red NilNode NilNode) [f])
      | f # g # rest \<Rightarrow> fixInsert (Node key val Red NilNode NilNode) (f # g # rest))"

subsection \<open>Delete\<close>

text \<open>The search loop of \<^verbatim>\<open>deleteNodeHelper\<close>; \<open>None\<close> when the key is absent.\<close>

fun find_node :: "int \<Rightarrow> 'v Node \<Rightarrow> 'v path \<Rightarrow> ('v Node \<times> 'v path) option" where
  "find_node key NilNode p = None"
| "find_node key (Node k v c l r) p =
     (if k = key then Some (Node k v c l r, p)
      else if k < key then find_node key r (Frame RightChild k v c l # p)
      else find_node key l (Frame LeftChild k v c r # p))"

text \<open>
  \<^verbatim>\<open>minimum(node)\<close> walks down the left links. Called on the sentinel it would follow the
  sentinel's \<^verbatim>\<open>Left\<close>, the Go \<^verbatim>\<open>nil\<close>.
\<close>

fun minimum :: "'v Node \<Rightarrow> 'v path \<Rightarrow> ('v Node \<times> 'v path) option" where
  "minimum NilNode p = None"
| "minimum (Node k v c NilNode r) p = Some (Node k v c NilNode r, p)"
| "minimum (Node k v c (Node lk lv lc ll lr) r) p =
     minimum (Node lk lv lc ll lr) (Frame LeftChild k v c r # p)"

text \<open>
  One round of the loop of \<^verbatim>\<open>fixDelete(x)\<close>, for a black \<open>x\<close> that is not the root. It
  either moves \<open>x\<close> to its parent and goes round again, or ends with \<^verbatim>\<open>x = t.Root\<close>.
\<close>

datatype 'v round = Continue "'v Node" "'v path" | Finished "'v Node"

text \<open>
  The branch \<^verbatim>\<open>x == x.Parent.Left\<close>; \<open>s\<close> is \<^verbatim>\<open>x.Parent.Right\<close>. When \<open>s\<close> is the
  sentinel, \<^verbatim>\<open>s.Left.Color\<close> dereferences the Go \<^verbatim>\<open>nil\<close>.
\<close>

definition fixDelete_left ::
    "'v Node \<Rightarrow> int \<Rightarrow> 'v \<Rightarrow> Color \<Rightarrow> 'v Node \<Rightarrow> 'v path \<Rightarrow> 'v round option" where
  "fixDelete_left x pk pv pc s rest =
     (let (pc1, s1, rest1) =
        (case s of
           Node sk sv Red sl sr \<Rightarrow> (Red, sl, Frame LeftChild sk sv Black sr # rest)
         | _ \<Rightarrow> (pc, s, rest))
      in case s1 of
           NilNode \<Rightarrow> None
         | Node sk sv sc sl sr \<Rightarrow>
             if color sl = Black \<and> color sr = Black then
               Some (Continue (Node pk pv pc1 x (Node sk sv Red sl sr)) rest1)
             else
               (case (if color sr = Black
                      then rightRotate (Node sk sv Red (set_color Black sl) sr)
                      else Some (Node sk sv sc sl sr)) of
                  None \<Rightarrow> None
                | Some NilNode \<Rightarrow> None
                | Some (Node tk tv tc ta tb) \<Rightarrow>
                    (case leftRotate (Node pk pv Black x (Node tk tv pc1 ta (set_color Black tb))) of
                       None \<Rightarrow> None
                     | Some g \<Rightarrow> Some (Finished (plug g rest1)))))"

text \<open>The mirrored branch; \<open>s\<close> is \<^verbatim>\<open>x.Parent.Left\<close>.\<close>

definition fixDelete_right ::
    "'v Node \<Rightarrow> int \<Rightarrow> 'v \<Rightarrow> Color \<Rightarrow> 'v Node \<Rightarrow> 'v path \<Rightarrow> 'v round option" where
  "fixDelete_right x pk pv pc s rest =
     (let (pc1, s1, rest1) =
        (case s of
           Node sk sv Red sl sr \<Rightarrow> (Red, sr, Frame RightChild sk sv Black sl # rest)
         | _ \<Rightarrow> (pc, s, rest))
      in case s1 of
           NilNode \<Rightarrow> None
         | Node sk sv sc sl sr \<Rightarrow>
             if color sr = Black \<and> color sl = Black then
               Some (Continue (Node pk pv pc1 (Node sk sv Red sl sr) x) rest1)
             else
               (case (if color sl = Black
                      then leftRotate (Node sk sv Red sl (set_color Black sr))
                      else Some (Node sk sv sc sl sr)) of
                  None \<Rightarrow> None
                | Some NilNode \<Rightarrow> None
                | Some (Node tk tv tc ta tb) \<Rightarrow>
                    (case rightRotate (Node pk pv Black (Node tk tv pc1 (set_color Black ta) tb) x) of
                       None \<Rightarrow> None
                     | Some g \<Rightarrow> Some (Finished (plug g rest1)))))"

text \<open>
  The test \<^verbatim>\<open>x == x.Parent.Left\<close> compares pointers: it holds for a left child, and also
  for the sentinel as a right child when the left child is the sentinel too. In that case
  \<^verbatim>\<open>x.Parent.Right\<close> is the sentinel again.
\<close>

fun fixDelete_round :: "'v Node \<Rightarrow> 'v frame \<Rightarrow> 'v path \<Rightarrow> 'v round option" where
  "fixDelete_round x (Frame LeftChild pk pv pc sib) rest = fixDelete_left x pk pv pc sib rest"
| "fixDelete_round x (Frame RightChild pk pv pc sib) rest =
     (case (x, sib) of
        (NilNode, NilNode) \<Rightarrow> fixDelete_left x pk pv pc x rest
      | _ \<Rightarrow> fixDelete_right x pk pv pc sib rest)"

lemma fixDelete_left_measure:
  "fixDelete_left x pk pv pc s rest = Some (Continue x' p') \<Longrightarrow>
   2 * length p' + (if color x' = Black then 1 else 0) < 2 * length rest + 3"
  by (auto simp: fixDelete_left_def Let_def
           split: Node.splits Color.splits if_splits option.splits)

lemma fixDelete_right_measure:
  "fixDelete_right x pk pv pc s rest = Some (Continue x' p') \<Longrightarrow>
   2 * length p' + (if color x' = Black then 1 else 0) < 2 * length rest + 3"
  by (auto simp: fixDelete_right_def Let_def
           split: Node.splits Color.splits if_splits option.splits)

lemma fixDelete_round_measure:
  "fixDelete_round x f rest = Some (Continue x' p') \<Longrightarrow>
   2 * length p' + (if color x' = Black then 1 else 0) < 2 * length rest + 3"
  by (cases "(x, f, rest)" rule: fixDelete_round.cases)
     (auto dest: fixDelete_left_measure fixDelete_right_measure split: Node.splits)

text \<open>
  \<^verbatim>\<open>fixDelete(x)\<close>: the loop runs while \<open>x\<close> is not the root and is black; the last
  statement blackens \<open>x\<close>.
\<close>

function fixDelete :: "'v Node \<Rightarrow> 'v path \<Rightarrow> 'v Node option" where
  "fixDelete x [] = Some (set_color Black x)"
| "fixDelete x (f # rest) =
     (if color x \<noteq> Black then Some (plug (set_color Black x) (f # rest))
      else
        (case fixDelete_round x f rest of
           None \<Rightarrow> None
         | Some (Finished t) \<Rightarrow> Some (set_color Black t)
         | Some (Continue x' p') \<Rightarrow> fixDelete x' p'))"
  by pat_completeness auto
termination
  by (relation "measure (\<lambda>(x, p). 2 * length p + (if color x = Black then 1 else 0))")
     (auto dest: fixDelete_round_measure)

text \<open>
  \<^verbatim>\<open>deleteNodeHelper\<close> after the search: \<open>z\<close> is spliced out. With two children its
  successor \<open>y\<close> (the minimum of the right subtree) takes its place and its colour, and
  \<open>x\<close>, the right child of \<open>y\<close>, takes the place of \<open>y\<close>. The fix-up runs when the colour
  that left the tree was black.
\<close>

definition delete_finish :: "Color \<Rightarrow> 'v Node \<Rightarrow> 'v path \<Rightarrow> 'v Node option" where
  "delete_finish originalColor x p =
     (if originalColor = Black then fixDelete x p else Some (plug x p))"

fun delete_at :: "'v Node \<Rightarrow> 'v path \<Rightarrow> 'v Node option" where
  "delete_at NilNode zp = None"
| "delete_at (Node zk zv zc NilNode zr) zp = delete_finish zc zr zp"
| "delete_at (Node zk zv zc (Node lk lv lc ll lr) NilNode) zp =
     delete_finish zc (Node lk lv lc ll lr) zp"
| "delete_at (Node zk zv zc (Node lk lv lc ll lr) (Node rk rv rc rl rr)) zp =
     (case minimum (Node rk rv rc rl rr) [] of
        Some (Node yk yv yc yl x, mp) \<Rightarrow>
          delete_finish yc x (mp @ Frame RightChild yk yv zc (Node lk lv lc ll lr) # zp)
      | _ \<Rightarrow> None)"

definition Delete :: "int \<Rightarrow> 'v Node \<Rightarrow> 'v Node option" where
  "Delete key t =
     (case find_node key t [] of
        None \<Rightarrow> Some t
      | Some (z, zp) \<Rightarrow> delete_at z zp)"

subsection \<open>Traversal\<close>

text \<open>
  \<^verbatim>\<open>InOrderTraversal(fn)\<close> calls \<open>fn\<close> on the key and value of every node, left subtree
  first; the list of these pairs is what the callback sees, in order.
\<close>

fun InOrderTraversal :: "'v Node \<Rightarrow> (int \<times> 'v) list" where
  "InOrderTraversal NilNode = []"
| "InOrderTraversal (Node k v c l r) = InOrderTraversal l @ (k, v) # InOrderTraversal r"

section \<open>The functions of Go's \<^verbatim>\<open>unicode/utf8\<close> that the repository calls\<close>

text \<open>
  A Go \<^verbatim>\<open>string\<close> is a sequence of bytes: a \<open>string\<close> here, one \<open>char\<close> per byte. A
  \<^verbatim>\<open>rune\<close> is an \<open>int\<close>. The masks and shifts of the package are written as \<open>div\<close> and
  \<open>mod\<close> by powers of two.
\<close>

definition byte :: "char \<Rightarrow> int" where
  "byte b = of_char b"

definition RuneError :: int where
  "RuneError = 0xFFFD"

definition UTFMax :: int where
  "UTFMax = 4"

definition RuneStart :: "char \<Rightarrow> bool" where
  \<comment> \<open>\<^verbatim>\<open>b&0xC0 != 0x80\<close>\<close>
  "RuneStart b = (byte b div 64 \<noteq> 2)"

definition ValidRune :: "int \<Rightarrow> bool" where
  "ValidRune r = ((0 \<le> r \<and> r < 0xD800) \<or> (0xDFFF < r \<and> r \<le> 0x10FFFF))"

text \<open>
  The package's table \<^verbatim>\<open>first\<close> with \<^verbatim>\<open>acceptRanges\<close>: for a leading byte, the length
  of the sequence and the range allowed for the second byte; \<open>None\<close> for a byte that
  starts no sequence.
\<close>

definition first :: "int \<Rightarrow> (nat \<times> int \<times> int) option" where
  "first b =
     (if 0xC2 \<le> b \<and> b \<le> 0xDF then Some (2, 0x80, 0xBF)
      else if b = 0xE0 then Some (3, 0xA0, 0xBF)
      else if 0xE1 \<le> b \<and> b \<le> 0xEC then Some (3, 0x80, 0xBF)
      else if b = 0xED then Some (3, 0x80, 0x9F)
      else if 0xEE \<le> b \<and> b \<le> 0xEF then Some (3, 0x80, 0xBF)
      else if b = 0xF0 then Some (4, 0x90, 0xBF)
      else if 0xF1 \<le> b \<and> b \<le> 0xF3 then Some (4, 0x80, 0xBF)
      else if b = 0xF4 then Some (4, 0x80, 0x8F)
      else None)"

definition DecodeRuneInString :: "string \<Rightarrow> int \<times> nat" where
  "DecodeRuneInString s =
     (case s of
        [] \<Rightarrow> (RuneError, 0)
      | s0 # _ \<Rightarrow>
          if byte s0 < 0x80 then (byte s0, 1)
          else
            (case first (byte s0) of
               None \<Rightarrow> (RuneError, 1)
             | Some (sz, lo, hi) \<Rightarrow>
                 if length s < sz then (RuneError, 1)
                 else if byte (s ! 1) < lo \<or> hi < byte (s ! 1) then (RuneError, 1)
                 else if sz \<le> 2 then (byte s0 mod 32 * 64 + byte (s ! 1) mod 64, 2)
                 else if byte (s ! 2) < 0x80 \<or> 0xBF < byte (s ! 2) then (RuneError, 1)
                 else if sz \<le> 3 then
                   (byte s0 mod 16 * 4096 + byte (s ! 1) mod 64 * 64 + byte (s ! 2) mod 64, 3)
                 else if byte (s ! 3) < 0x80 \<or> 0xBF < byte (s ! 3) then (RuneError, 1)
                 else
                   (byte s0 mod 8 * 262144 + byte (s ! 1) mod 64 * 4096
                      + byte (s ! 2) mod 64 * 64 + byte (s ! 3) mod 64, 4)))"

text \<open>
  The conversion \<^verbatim>\<open>string(r)\<close> of one rune: its UTF-8 encoding, and that of
  \<^verbatim>\<open>RuneError\<close> for a surrogate or a value out of range.
\<close>

definition encode3 :: "int \<Rightarrow> string" where
  "encode3 r = [char_of (0xE0 + r div 4096), char_of (0x80 + r div 64 mod 64),
                char_of (0x80 + r mod 64)]"

definition encoderune :: "int \<Rightarrow> string" where
  "encoderune r =
     (if 0 \<le> r \<and> r \<le> 0x7F then [char_of r]
      else if 0 \<le> r \<and> r \<le> 0x7FF then [char_of (0xC0 + r div 64), char_of (0x80 + r mod 64)]
      else if r < 0 \<or> 0x10FFFF < r \<or> (0xD800 \<le> r \<and> r \<le> 0xDFFF) then encode3 RuneError
      else if r \<le> 0xFFFF then encode3 r
      else [char_of (0xF0 + r div 262144), char_of (0x80 + r div 4096 mod 64),
            char_of (0x80 + r div 64 mod 64), char_of (0x80 + r mod 64)])"

definition string_of_runes :: "int list \<Rightarrow> string" where
  "string_of_runes rs = concat (map encoderune rs)"

lemma first_size:
  "first b = Some (sz, lo, hi) \<Longrightarrow> sz = 2 \<or> sz = 3 \<or> sz = 4"
  by (auto simp: first_def split: if_splits)

lemma DecodeRuneInString_size:
  assumes "s \<noteq> []"
  shows "1 \<le> snd (DecodeRuneInString s) \<and> snd (DecodeRuneInString s) \<le> length s"
proof (cases s)
  case Nil
  with assms show ?thesis by simp
next
  case (Cons s0 rest)
  show ?thesis
  proof (cases "first (byte s0)")
    case None
    then show ?thesis by (simp add: DecodeRuneInString_def Cons)
  next
    case (Some a)
    obtain sz lo hi where a: "a = (sz, lo, hi)" by (cases a)
    from first_size [of "byte s0" sz lo hi] Some a
    have "sz = 2 \<or> sz = 3 \<or> sz = 4" by simp
    with Some a show ?thesis
      by (auto simp: DecodeRuneInString_def Cons Suc_le_eq)
  qed
qed

lemma drop_DecodeRuneInString_shorter:
  "s \<noteq> [] \<Longrightarrow> length s - snd (DecodeRuneInString s) < length s"
  using DecodeRuneInString_size [of s] by (cases s) auto

text \<open>
  \<^verbatim>\<open>utf8.Valid\<close>: every position decodes to a rune, none to the error of width one.
\<close>

function Valid :: "string \<Rightarrow> bool" where
  "Valid s =
     (if s = [] then True
      else if DecodeRuneInString s = (RuneError, 1) then False
      else Valid (drop (snd (DecodeRuneInString s)) s))"
  by pat_completeness auto
termination
  by (relation "measure length") (auto simp: drop_DecodeRuneInString_shorter)

text \<open>\<^verbatim>\<open>utf8.RuneCountInString\<close>: an invalid byte counts as one rune of width one.\<close>

function RuneCountInString :: "string \<Rightarrow> int" where
  "RuneCountInString s =
     (if s = [] then 0
      else 1 + RuneCountInString (drop (snd (DecodeRuneInString s)) s))"
  by pat_completeness auto
termination
  by (relation "measure length") (auto simp: drop_DecodeRuneInString_shorter)

section \<open>The helpers of \<^verbatim>\<open>unicode.go\<close>\<close>

text \<open>The loop of \<^verbatim>\<open>RuneIndex\<close> and of \<^verbatim>\<open>RuneIndexRange\<close>, from \<open>(count, byteIndex)\<close> (the counter is \<open>cnt\<close> here).\<close>

function rune_walk :: "string \<Rightarrow> int \<Rightarrow> int \<Rightarrow> int \<Rightarrow> int \<times> int" where
  "rune_walk s bound cnt byteIndex =
     (if cnt < bound \<and> 0 \<le> byteIndex \<and> byteIndex < int (length s) then
        rune_walk s bound (cnt + 1)
          (byteIndex + int (snd (DecodeRuneInString (drop (nat byteIndex) s))))
      else (cnt, byteIndex))"
  by pat_completeness auto
termination
proof (relation "measure (\<lambda>(s, bound, cnt, byteIndex). length s - nat byteIndex)")
  show "wf (measure (\<lambda>(s, bound, cnt, byteIndex). length s - nat byteIndex))"
    by simp
next
  fix s :: string and bound cnt byteIndex :: int
  assume a: "cnt < bound \<and> 0 \<le> byteIndex \<and> byteIndex < int (length s)"
  then have b: "nat byteIndex < length s" by linarith
  then have "drop (nat byteIndex) s \<noteq> []" by simp
  from DecodeRuneInString_size [OF this]
  have "1 \<le> snd (DecodeRuneInString (drop (nat byteIndex) s))" by simp
  with a b
  show "((s, bound, cnt + 1,
          byteIndex + int (snd (DecodeRuneInString (drop (nat byteIndex) s)))),
         (s, bound, cnt, byteIndex))
        \<in> measure (\<lambda>(s, bound, cnt, byteIndex). length s - nat byteIndex)"
    by (simp add: nat_add_distrib)
qed

definition RuneIndex :: "string \<Rightarrow> int \<Rightarrow> int" where
  "RuneIndex s runeIndex =
     (if runeIndex < 0 then -1
      else
        (let (cnt, byteIndex) = rune_walk s runeIndex 0 0
         in if cnt < runeIndex then -1 else byteIndex))"

definition RuneIndexRange :: "string \<Rightarrow> int \<Rightarrow> int \<Rightarrow> int \<times> int" where
  "RuneIndexRange s runeStart runeEnd =
     (if runeStart < 0 \<or> runeEnd < runeStart then (-1, -1)
      else
        (let byteStart = RuneIndex s runeStart
         in if byteStart < 0 then (-1, -1)
            else if runeStart = runeEnd then (byteStart, byteStart)
            else (byteStart, snd (rune_walk s runeEnd runeStart byteStart))))"

definition RuneCount :: "string \<Rightarrow> int" where
  "RuneCount s = RuneCountInString s"

definition ValidUTF8 :: "string \<Rightarrow> bool" where
  "ValidUTF8 s = Valid s"

text \<open>
  The loop of \<^verbatim>\<open>EnsureValidUTF8\<close>: the runes of \<open>s\<close>, without the bytes that decode to
  the error of width one.
\<close>

function valid_runes :: "string \<Rightarrow> int list" where
  "valid_runes s =
     (if s = [] then []
      else if DecodeRuneInString s = (RuneError, 1) then valid_runes (drop 1 s)
      else fst (DecodeRuneInString s) # valid_runes (drop (snd (DecodeRuneInString s)) s))"
  by pat_completeness auto
termination
  by (relation "measure length") (auto simp: drop_DecodeRuneInString_shorter)

definition EnsureValidUTF8 :: "string \<Rightarrow> string" where
  "EnsureValidUTF8 s = (if ValidUTF8 s then s else string_of_runes (valid_runes s))"

section \<open>The gap buffer of \<^verbatim>\<open>pkg/buffer/gapbuffer.go\<close>\<close>

text \<open>
  A call that does not return, because it panics or because a loop never ends, has the
  result \<open>None\<close>. A call that returns gives the buffer after the call; for the methods with
  an \<^verbatim>\<open>error\<close> result also \<open>Some\<close> of the error or \<open>None\<close> for \<^verbatim>\<open>nil\<close>.
\<close>

definition DEFAULT_CHUNK_SIZE :: int where
  "DEFAULT_CHUNK_SIZE = 4096"

definition DEFAULT_GAP_SIZE :: int where
  "DEFAULT_GAP_SIZE = 1024 * 1024"

record Chunk =
  Text :: string
  Pos :: int

record GapBuffer =
  tree :: "Chunk Node"
  gapStart :: int
  gapEnd :: int
  length' :: int
  chunkSize :: int

datatype error = Error string

definition New :: GapBuffer where
  "New = \<lparr>tree = NewRBTree, gapStart = 0, gapEnd = DEFAULT_GAP_SIZE, length' = 0,
          chunkSize = DEFAULT_CHUNK_SIZE\<rparr>"

definition NewWithChunkSize :: "int \<Rightarrow> GapBuffer" where
  "NewWithChunkSize cs =
     \<lparr>tree = NewRBTree, gapStart = 0, gapEnd = DEFAULT_GAP_SIZE, length' = 0,
      chunkSize = (if cs \<le> 0 then DEFAULT_CHUNK_SIZE else cs)\<rparr>"

text \<open>Indexing and slicing a string panic out of range.\<close>

definition byte_at :: "string \<Rightarrow> int \<Rightarrow> char option" where
  "byte_at s i = (if 0 \<le> i \<and> i < int (length s) then Some (s ! nat i) else None)"

definition slice :: "string \<Rightarrow> int \<Rightarrow> int \<Rightarrow> string option" where
  "slice s lo hi =
     (if 0 \<le> lo \<and> lo \<le> hi \<and> hi \<le> int (length s)
      then Some (take (nat (hi - lo)) (drop (nat lo) s)) else None)"

text \<open>
  The nodes that a traversal collects with \<^verbatim>\<open>gb.tree.Search(key)\<close>, for the keys
  that satisfy the test of the callback.
\<close>

definition nodes_where :: "(int \<Rightarrow> bool) \<Rightarrow> 'v Node \<Rightarrow> (int \<times> 'v) option list" where
  "nodes_where P t =
     map (\<lambda>(key, val). Search t key) (filter (\<lambda>(key, val). P key) (InOrderTraversal t))"

subsection \<open>\<^verbatim>\<open>moveGap\<close> and \<^verbatim>\<open>expandGap\<close>\<close>

text \<open>
  The loop \<^verbatim>\<open>for i := len(nodesToMove) - 1; i >= 0; i--\<close> of the move to the left; the
  counter of the function is \<open>i + 1\<close>.
\<close>

fun moveGap_left_loop ::
    "(int \<times> 'v) option list \<Rightarrow> int \<Rightarrow> nat \<Rightarrow> 'v Node \<Rightarrow> 'v Node option" where
  "moveGap_left_loop nodesToMove gEnd 0 t = Some t"
| "moveGap_left_loop nodesToMove gEnd (Suc i) t =
     (case nodesToMove ! i of
        None \<Rightarrow> None
      | Some (key, chunk) \<Rightarrow>
          (case Delete key t of
             None \<Rightarrow> None
           | Some t1 \<Rightarrow>
               (case Insert (gEnd - int (length nodesToMove) + int i) chunk t1 of
                  None \<Rightarrow> None
                | Some t2 \<Rightarrow> moveGap_left_loop nodesToMove gEnd i t2)))"

text \<open>The loop \<^verbatim>\<open>for i, node := range nodesToMove\<close> of the move to the right.\<close>

fun moveGap_right_loop ::
    "(int \<times> 'v) option list \<Rightarrow> int \<Rightarrow> int \<Rightarrow> 'v Node \<Rightarrow> 'v Node option" where
  "moveGap_right_loop [] gStart i t = Some t"
| "moveGap_right_loop (node # rest) gStart i t =
     (case node of
        None \<Rightarrow> None
      | Some (key, chunk) \<Rightarrow>
          (case Delete key t of
             None \<Rightarrow> None
           | Some t1 \<Rightarrow>
               (case Insert (gStart + i) chunk t1 of
                  None \<Rightarrow> None
                | Some t2 \<Rightarrow> moveGap_right_loop rest gStart (i + 1) t2)))"

definition moveGap :: "int \<Rightarrow> GapBuffer \<Rightarrow> GapBuffer option" where
  "moveGap pos gb =
     (if pos = gapStart gb then Some gb
      else if pos < gapStart gb then
        (let nodesToMove = nodes_where (\<lambda>key. key \<ge> pos \<and> key < gapStart gb) (tree gb)
         in case moveGap_left_loop nodesToMove (gapEnd gb) (length nodesToMove) (tree gb) of
              None \<Rightarrow> None
            | Some t \<Rightarrow>
                Some (gb\<lparr>tree := t, gapEnd := pos + (gapEnd gb - gapStart gb), gapStart := pos\<rparr>))
      else
        (let nodesToMove =
               nodes_where (\<lambda>key. key \<ge> gapEnd gb \<and> key < gapEnd gb + (pos - gapStart gb))
                 (tree gb)
         in case moveGap_right_loop nodesToMove (gapStart gb) 0 (tree gb) of
              None \<Rightarrow> None
            | Some t \<Rightarrow>
                Some (gb\<lparr>tree := t, gapStart := pos, gapEnd := pos + (gapEnd gb - gapStart gb)\<rparr>)))"

fun expandGap_loop :: "(int \<times> 'v) option list \<Rightarrow> int \<Rightarrow> 'v Node \<Rightarrow> 'v Node option" where
  "expandGap_loop [] expandBy t = Some t"
| "expandGap_loop (node # rest) expandBy t =
     (case node of
        None \<Rightarrow> None
      | Some (key, val) \<Rightarrow>
          (case Delete key t of
             None \<Rightarrow> None
           | Some t1 \<Rightarrow>
               (case Insert (key + expandBy) val t1 of
                  None \<Rightarrow> None
                | Some t2 \<Rightarrow> expandGap_loop rest expandBy t2)))"

definition expandGap :: "int \<Rightarrow> GapBuffer \<Rightarrow> GapBuffer option" where
  "expandGap minSize gb =
     (let currentGapSize = gapEnd gb - gapStart gb
      in if currentGapSize \<ge> minSize then Some gb
         else
           (let newGapSize = (if currentGapSize * 2 < minSize then minSize else currentGapSize * 2);
                expandBy = newGapSize - currentGapSize;
                nodesToMove = nodes_where (\<lambda>key. key \<ge> gapEnd gb) (tree gb)
            in case expandGap_loop nodesToMove expandBy (tree gb) of
                 None \<Rightarrow> None
               | Some t \<Rightarrow> Some (gb\<lparr>tree := t, gapEnd := gapEnd gb + expandBy\<rparr>)))"

subsection \<open>\<^verbatim>\<open>InsertAt\<close>\<close>

text \<open>
  The inner loop \<^verbatim>\<open>for !utf8.RuneStart(text[end-1]) && end > i { end-- }\<close>; the index is
  read before \<^verbatim>\<open>end > i\<close> is tested.
\<close>

function chunk_backoff :: "string \<Rightarrow> int \<Rightarrow> int \<Rightarrow> int option" where
  "chunk_backoff text i e =
     (case byte_at text (e - 1) of
        None \<Rightarrow> None
      | Some b \<Rightarrow> if \<not> RuneStart b \<and> e > i then chunk_backoff text i (e - 1) else Some e)"
  by pat_completeness auto
termination
  by (relation "measure (\<lambda>(text, i, e). nat (e - i))") auto

definition chunk_end :: "string \<Rightarrow> int \<Rightarrow> int \<Rightarrow> int option" where
  "chunk_end text cs i =
     (if i + cs > int (length text) then Some (int (length text))
      else chunk_backoff text i (i + cs))"

text \<open>
  The loop \<^verbatim>\<open>for i := 0; i < len(text); { ... i = end }\<close> on the tree and \<^verbatim>\<open>gapStart\<close>.
  It has no bound of its own: a piece of length zero leaves \<open>i\<close> where it was.
\<close>

partial_function (option) insert_chunks ::
    "string \<Rightarrow> int \<Rightarrow> int \<Rightarrow> Chunk Node \<times> int \<Rightarrow> (Chunk Node \<times> int) option" where
  "insert_chunks text cs i st =
     (if i < int (length text) then
        (case chunk_end text cs i of
           None \<Rightarrow> None
         | Some e \<Rightarrow>
             (case slice text i e of
                None \<Rightarrow> None
              | Some piece \<Rightarrow>
                  (case Insert (snd st) \<lparr>Text = piece, Pos = snd st\<rparr> (fst st) of
                     None \<Rightarrow> None
                   | Some t \<Rightarrow> insert_chunks text cs e (t, snd st + (e - i)))))
      else Some st)"

declare insert_chunks.simps [code]

definition InsertAt :: "int \<Rightarrow> string \<Rightarrow> GapBuffer \<Rightarrow> (error option \<times> GapBuffer) option" where
  "InsertAt pos text gb =
     (if pos < 0 \<or> pos > length' gb then Some (Some (Error ''position out of range''), gb)
      else
        (case (if pos \<noteq> gapStart gb then moveGap pos gb else Some gb) of
           None \<Rightarrow> None
         | Some gb1 \<Rightarrow>
             (case (if int (length text) > gapEnd gb1 - gapStart gb1
                    then expandGap (int (length text)) gb1 else Some gb1) of
                None \<Rightarrow> None
              | Some gb2 \<Rightarrow>
                  (case insert_chunks text (chunkSize gb2) 0 (tree gb2, gapStart gb2) of
                     None \<Rightarrow> None
                   | Some (t, gs) \<Rightarrow>
                       Some (None, gb2\<lparr>tree := t, gapStart := gs,
                                       length' := length' gb2 + int (length text)\<rparr>)))))"

subsection \<open>\<^verbatim>\<open>DeleteAt\<close> and \<^verbatim>\<open>Replace\<close>\<close>

fun delete_keys :: "int list \<Rightarrow> 'v Node \<Rightarrow> 'v Node option" where
  "delete_keys [] t = Some t"
| "delete_keys (key # rest) t =
     (case Delete key t of None \<Rightarrow> None | Some t1 \<Rightarrow> delete_keys rest t1)"

definition DeleteAt :: "int \<Rightarrow> int \<Rightarrow> GapBuffer \<Rightarrow> (error option \<times> GapBuffer) option" where
  "DeleteAt pos cnt gb =
     (if pos < 0 \<or> pos + cnt > length' gb
      then Some (Some (Error ''position or count out of range''), gb)
      else
        (case (if pos \<noteq> gapStart gb then moveGap pos gb else Some gb) of
           None \<Rightarrow> None
         | Some gb1 \<Rightarrow>
             (let keysToDelete =
                    map fst (filter (\<lambda>(key, val). key \<ge> gapEnd gb1 \<and> key < gapEnd gb1 + cnt)
                               (InOrderTraversal (tree gb1)))
              in case delete_keys keysToDelete (tree gb1) of
                   None \<Rightarrow> None
                 | Some t \<Rightarrow>
                     Some (None, gb1\<lparr>tree := t, gapEnd := gapEnd gb1 + cnt,
                                     length' := length' gb1 - cnt\<rparr>))))"

definition Replace ::
    "int \<Rightarrow> int \<Rightarrow> string \<Rightarrow> GapBuffer \<Rightarrow> (error option \<times> GapBuffer) option" where
  "Replace start endp text gb =
     (if start < 0 \<or> endp > length' gb \<or> start > endp
      then Some (Some (Error ''invalid range''), gb)
      else
        (case DeleteAt start (endp - start) gb of
           None \<Rightarrow> None
         | Some (Some err, gb1) \<Rightarrow> Some (Some err, gb1)
         | Some (None, gb1) \<Rightarrow> InsertAt start text gb1))"

subsection \<open>Reading\<close>

text \<open>
  \<^verbatim>\<open>GetText\<close> allocates \<^verbatim>\<open>make([]byte, 0, resultCapacity)\<close> with a capacity of
  \<^verbatim>\<open>gb.length + 100\<close>, at most 100 MiB; a negative capacity panics.
\<close>

definition GetText :: "GapBuffer \<Rightarrow> string option" where
  "GetText gb =
     (if length' gb + 100 < 0 then None
      else Some (EnsureValidUTF8
             (concat (map (\<lambda>(key, chunk). Text chunk)
                (filter (\<lambda>(key, chunk). key < gapStart gb \<or> key \<ge> gapEnd gb)
                   (InOrderTraversal (tree gb)))))))"

text \<open>
  The callback of \<^verbatim>\<open>GetTextRange\<close>, loop by loop. The first loop moves \<^verbatim>\<open>chunkStart\<close>
  forward to a byte that starts a rune.
\<close>

function skip_continuation :: "string \<Rightarrow> int \<Rightarrow> int \<Rightarrow> int option" where
  "skip_continuation chunkText chunkStart chunkEnd =
     (if chunkStart < chunkEnd then
        (case byte_at chunkText chunkStart of
           None \<Rightarrow> None
         | Some b \<Rightarrow>
             if \<not> RuneStart b then skip_continuation chunkText (chunkStart + 1) chunkEnd
             else Some chunkStart)
      else Some chunkStart)"
  by pat_completeness auto
termination
  by (relation "measure (\<lambda>(chunkText, chunkStart, chunkEnd). nat (chunkEnd - chunkStart))") auto

text \<open>
  \<^verbatim>\<open>for i := 1; i < utf8.UTFMax && tmpEnd-i >= chunkStart; i++\<close>: the distance from
  \<^verbatim>\<open>tmpEnd\<close> back to a byte that starts a rune, or 1.
\<close>

function find_runeLen :: "string \<Rightarrow> int \<Rightarrow> int \<Rightarrow> int \<Rightarrow> int option" where
  "find_runeLen chunkText chunkStart tmpEnd i =
     (if i < UTFMax \<and> tmpEnd - i \<ge> chunkStart then
        (case byte_at chunkText (tmpEnd - i) of
           None \<Rightarrow> None
         | Some b \<Rightarrow>
             if RuneStart b then Some i
             else find_runeLen chunkText chunkStart tmpEnd (i + 1))
      else Some 1)"
  by pat_completeness auto
termination
  by (relation "measure (\<lambda>(chunkText, chunkStart, tmpEnd, i). nat (UTFMax - i))") auto

text \<open>
  \<^verbatim>\<open>for i := 0; i < runeLen; i++\<close>: whether every byte of the last \<^verbatim>\<open>runeLen\<close> bytes,
  converted to a rune by itself, is a valid rune.
\<close>

function bytes_valid :: "string \<Rightarrow> int \<Rightarrow> int \<Rightarrow> int \<Rightarrow> bool option" where
  "bytes_valid chunkText tmpEnd runeLen i =
     (if i < runeLen then
        (case byte_at chunkText (tmpEnd - runeLen + i) of
           None \<Rightarrow> None
         | Some b \<Rightarrow>
             if \<not> ValidRune (byte b) then Some False
             else bytes_valid chunkText tmpEnd runeLen (i + 1))
      else Some True)"
  by pat_completeness auto
termination
  by (relation "measure (\<lambda>(chunkText, tmpEnd, runeLen, i). nat (runeLen - i))") auto

text \<open>\<^verbatim>\<open>for tmpEnd > chunkStart { ... tmpEnd-- }\<close>, left by \<^verbatim>\<open>break\<close> when \<^verbatim>\<open>valid\<close>.\<close>

function trim_end :: "string \<Rightarrow> int \<Rightarrow> int \<Rightarrow> int option" where
  "trim_end chunkText chunkStart tmpEnd =
     (if tmpEnd > chunkStart then
        (case find_runeLen chunkText chunkStart tmpEnd 1 of
           None \<Rightarrow> None
         | Some runeLen \<Rightarrow>
             if tmpEnd - runeLen \<ge> chunkStart then
               (case bytes_valid chunkText tmpEnd runeLen 0 of
                  None \<Rightarrow> None
                | Some valid \<Rightarrow>
                    if valid then Some tmpEnd
                    else trim_end chunkText chunkStart (tmpEnd - 1))
             else trim_end chunkText chunkStart (tmpEnd - 1))
      else Some tmpEnd)"
  by pat_completeness auto
termination
  by (relation "measure (\<lambda>(chunkText, chunkStart, tmpEnd). nat (tmpEnd - chunkStart))") auto

text \<open>What the callback appends to \<^verbatim>\<open>result\<close> for one node.\<close>

definition range_part :: "GapBuffer \<Rightarrow> int \<Rightarrow> int \<Rightarrow> int \<times> Chunk \<Rightarrow> string option" where
  "range_part gb start endp kv =
     (let key = fst kv; chunkText = Text (snd kv); chunkLen = int (length chunkText)
      in if key \<ge> gapStart gb \<and> key < gapEnd gb then Some []
         else
           (let adjustedKey = (if key \<ge> gapEnd gb then key - (gapEnd gb - gapStart gb) else key)
            in if adjustedKey + chunkLen \<le> start \<or> adjustedKey \<ge> endp then Some []
               else
                 (let chunkStart = (if adjustedKey < start then start - adjustedKey else 0);
                      chunkEnd = (if adjustedKey + chunkLen > endp then endp - adjustedKey
                                  else chunkLen)
                  in if chunkStart < chunkEnd then
                       (case skip_continuation chunkText chunkStart chunkEnd of
                          None \<Rightarrow> None
                        | Some chunkStart1 \<Rightarrow>
                            (case trim_end chunkText chunkStart1 chunkEnd of
                               None \<Rightarrow> None
                             | Some chunkEnd1 \<Rightarrow>
                                 if chunkStart1 < chunkEnd1
                                 then slice chunkText chunkStart1 chunkEnd1
                                 else Some []))
                     else Some [])))"

fun range_parts :: "GapBuffer \<Rightarrow> int \<Rightarrow> int \<Rightarrow> (int \<times> Chunk) list \<Rightarrow> string option" where
  "range_parts gb start endp [] = Some []"
| "range_parts gb start endp (kv # rest) =
     (case range_part gb start endp kv of
        None \<Rightarrow> None
      | Some part \<Rightarrow>
          (case range_parts gb start endp rest of
             None \<Rightarrow> None
           | Some others \<Rightarrow> Some (part @ others)))"

text \<open>
  \<^verbatim>\<open>GetTextRange\<close> returns a string and an error. The physical positions it computes
  first are not used afterwards.
\<close>

definition GetTextRange :: "int \<Rightarrow> int \<Rightarrow> GapBuffer \<Rightarrow> (string \<times> error option) option" where
  "GetTextRange start endp gb =
     (if start < 0 \<or> endp > length' gb \<or> start > endp
      then Some ([], Some (Error ''invalid range''))
      else
        (case range_parts gb start endp (InOrderTraversal (tree gb)) of
           None \<Rightarrow> None
         | Some result \<Rightarrow> Some (EnsureValidUTF8 result, None)))"

definition Length :: "GapBuffer \<Rightarrow> int" where
  "Length gb = length' gb"

definition GapLength :: "GapBuffer \<Rightarrow> int" where
  "GapLength gb = gapEnd gb - gapStart gb"

definition GapStart :: "GapBuffer \<Rightarrow> int" where
  "GapStart gb = gapStart gb"

definition GapEnd :: "GapBuffer \<Rightarrow> int" where
  "GapEnd gb = gapEnd gb"

subsection \<open>The rune-oriented methods\<close>

definition InsertRuneAt ::
    "int \<Rightarrow> string \<Rightarrow> GapBuffer \<Rightarrow> (error option \<times> GapBuffer) option" where
  "InsertRuneAt runePos text gb =
     (case GetText gb of
        None \<Rightarrow> None
      | Some fullText \<Rightarrow>
          (let bytePos = RuneIndex fullText runePos
           in if bytePos < 0 then Some (Some (Error ''rune position out of range''), gb)
              else InsertAt bytePos text gb))"

definition DeleteRuneAt ::
    "int \<Rightarrow> int \<Rightarrow> GapBuffer \<Rightarrow> (error option \<times> GapBuffer) option" where
  "DeleteRuneAt runePos runeCount gb =
     (if runeCount \<le> 0 then Some (Some (Error ''rune count must be positive''), gb)
      else
        (case GetText gb of
           None \<Rightarrow> None
         | Some fullText \<Rightarrow>
             if runePos < 0 \<or> runePos \<ge> RuneCount fullText
             then Some (Some (Error ''rune position out of range''), gb)
             else
               (let (byteStart, byteEnd) = RuneIndexRange fullText runePos (runePos + runeCount)
                in if byteStart < 0 \<or> byteEnd < 0
                   then Some (Some (Error ''invalid rune range''), gb)
                   else DeleteAt byteStart (byteEnd - byteStart) gb)))"

definition GetRuneTextRange ::
    "int \<Rightarrow> int \<Rightarrow> GapBuffer \<Rightarrow> (string \<times> error option) option" where
  "GetRuneTextRange runeStart runeEnd gb =
     (if runeStart < 0 \<or> runeStart > runeEnd
      then Some ([], Some (Error ''invalid rune range''))
      else
        (case GetText gb of
           None \<Rightarrow> None
         | Some fullText \<Rightarrow>
             (let runeCount = RuneCount fullText;
                  runeEnd1 = (if runeEnd > runeCount then runeCount else runeEnd);
                  (byteStart, byteEnd) = RuneIndexRange fullText runeStart runeEnd1
              in if byteStart < 0 \<or> byteEnd < 0
                 then Some ([], Some (Error ''invalid rune range''))
                 else GetTextRange byteStart byteEnd gb)))"

definition ReplaceRune ::
    "int \<Rightarrow> int \<Rightarrow> string \<Rightarrow> GapBuffer \<Rightarrow> (error option \<times> GapBuffer) option" where
  "ReplaceRune runeStart runeEnd text gb =
     (if runeStart < 0 \<or> runeStart > runeEnd
      then Some (Some (Error ''invalid rune range''), gb)
      else
        (case GetText gb of
           None \<Rightarrow> None
         | Some fullText \<Rightarrow>
             (let runeCount = RuneCount fullText;
                  runeEnd1 = (if runeEnd > runeCount then runeCount else runeEnd);
                  (byteStart, byteEnd) = RuneIndexRange fullText runeStart runeEnd1
              in if byteStart < 0 \<or> byteEnd < 0
                 then Some (Some (Error ''invalid rune range''), gb)
                 else Replace byteStart byteEnd text gb)))"

definition RuneLength :: "GapBuffer \<Rightarrow> int option" where
  "RuneLength gb = map_option RuneCount (GetText gb)"

section \<open>Construction\<close>

text \<open>
  C10. \<^verbatim>\<open>NewWithChunkSize\<close> with a chunk size of zero or less does not fail and does not
  keep the value given: the buffer has the default chunk size 4096, \<^verbatim>\<open>gapStart\<close> 0,
  \<^verbatim>\<open>gapEnd\<close> the default gap size, length 0 and an empty tree, and is the buffer that
  \<^verbatim>\<open>New\<close> returns.
\<close>

theorem NewWithChunkSize_nonpositive:
  assumes "cs \<le> 0"
  shows "NewWithChunkSize cs = New
         \<and> chunkSize (NewWithChunkSize cs) = 4096
         \<and> gapStart (NewWithChunkSize cs) = 0
         \<and> gapEnd (NewWithChunkSize cs) = 1024 * 1024
         \<and> length' (NewWithChunkSize cs) = 0
         \<and> tree (NewWithChunkSize cs) = NilNode"
  using assms
  by (simp add: NewWithChunkSize_def New_def DEFAULT_CHUNK_SIZE_def DEFAULT_GAP_SIZE_def
        NewRBTree_def)

theorem NewWithChunkSize_nonpositive_witness:
  "(- 3 :: int) \<le> 0 \<and> NewWithChunkSize (- 3) = New \<and> chunkSize (NewWithChunkSize (- 3)) = 4096
   \<and> gapStart (NewWithChunkSize (- 3)) = 0 \<and> gapEnd (NewWithChunkSize (- 3)) = 1024 * 1024
   \<and> length' (NewWithChunkSize (- 3)) = 0 \<and> tree (NewWithChunkSize (- 3)) = NilNode"
proof -
  have h: "(- 3 :: int) \<le> 0" by simp
  show ?thesis using h NewWithChunkSize_nonpositive [OF h] by (rule conjI)
qed

section \<open>Runs of the buffer that leave its documented behaviour\<close>

text \<open>
  C1. On a new buffer, \<^verbatim>\<open>InsertAt(0, "abc")\<close> and then \<^verbatim>\<open>InsertAt(1, "X")\<close> both return
  \<^verbatim>\<open>nil\<close>, and the length becomes 4; but \<^verbatim>\<open>GetText\<close> then returns \<^verbatim>\<open>"abcX"\<close>, not
  \<^verbatim>\<open>"aXbc"\<close>. \<^verbatim>\<open>moveGap(1)\<close> finds no chunk whose key lies in \<open>[1, 3)\<close>: the chunk
  \<^verbatim>\<open>"abc"\<close> starts at key 0 and is not split, so it stays in front of the gap as a whole
  and the new chunk gets key 1 behind it.
\<close>

theorem InsertAt_inside_chunk:
  "InsertAt 0 ''abc'' New =
     Some (None, \<lparr>tree = Node 0 \<lparr>Text = ''abc'', Pos = 0\<rparr> Black NilNode NilNode,
                  gapStart = 3, gapEnd = 1048576, length' = 3, chunkSize = 4096\<rparr>)
   \<and> GetText \<lparr>tree = Node 0 \<lparr>Text = ''abc'', Pos = 0\<rparr> Black NilNode NilNode,
              gapStart = 3, gapEnd = 1048576, length' = 3, chunkSize = 4096\<rparr> = Some ''abc''
   \<and> InsertAt 1 ''X'' \<lparr>tree = Node 0 \<lparr>Text = ''abc'', Pos = 0\<rparr> Black NilNode NilNode,
                       gapStart = 3, gapEnd = 1048576, length' = 3, chunkSize = 4096\<rparr> =
     Some (None, \<lparr>tree = Node 0 \<lparr>Text = ''abc'', Pos = 0\<rparr> Black NilNode
                           (Node 1 \<lparr>Text = ''X'', Pos = 1\<rparr> Red NilNode NilNode),
                  gapStart = 2, gapEnd = 1048574, length' = 4, chunkSize = 4096\<rparr>)
   \<and> GetText \<lparr>tree = Node 0 \<lparr>Text = ''abc'', Pos = 0\<rparr> Black NilNode
                       (Node 1 \<lparr>Text = ''X'', Pos = 1\<rparr> Red NilNode NilNode),
              gapStart = 2, gapEnd = 1048574, length' = 4, chunkSize = 4096\<rparr> = Some ''abcX''"
  by code_simp

text \<open>
  C2. On a new buffer, after \<^verbatim>\<open>InsertAt(0, "abc")\<close> and \<^verbatim>\<open>InsertAt(3, "def")\<close> the tree
  holds the chunks \<^verbatim>\<open>"abc"\<close> at key 0 and \<^verbatim>\<open>"def"\<close> at key 3. \<^verbatim>\<open>DeleteAt(0, 3)\<close>, which
  covers exactly the first chunk, returns \<^verbatim>\<open>nil\<close> and the length becomes 3, but no chunk
  is removed: \<^verbatim>\<open>GetText\<close> still returns \<^verbatim>\<open>"abcdef"\<close>. \<^verbatim>\<open>moveGap(0)\<close> puts the two chunks
  at the keys \<^verbatim>\<open>gapEnd - 2\<close> and \<^verbatim>\<open>gapEnd - 1\<close>, one key apart instead of one chunk
  length apart, and sets \<^verbatim>\<open>gapEnd\<close> to 1048570; no key lies in \<open>[1048570, 1048573)\<close>.
\<close>

theorem DeleteAt_whole_chunk:
  "InsertAt 0 ''abc'' New =
     Some (None, \<lparr>tree = Node 0 \<lparr>Text = ''abc'', Pos = 0\<rparr> Black NilNode NilNode,
                  gapStart = 3, gapEnd = 1048576, length' = 3, chunkSize = 4096\<rparr>)
   \<and> InsertAt 3 ''def'' \<lparr>tree = Node 0 \<lparr>Text = ''abc'', Pos = 0\<rparr> Black NilNode NilNode,
                         gapStart = 3, gapEnd = 1048576, length' = 3, chunkSize = 4096\<rparr> =
     Some (None, \<lparr>tree = Node 0 \<lparr>Text = ''abc'', Pos = 0\<rparr> Black NilNode
                           (Node 3 \<lparr>Text = ''def'', Pos = 3\<rparr> Red NilNode NilNode),
                  gapStart = 6, gapEnd = 1048576, length' = 6, chunkSize = 4096\<rparr>)
   \<and> GetText \<lparr>tree = Node 0 \<lparr>Text = ''abc'', Pos = 0\<rparr> Black NilNode
                       (Node 3 \<lparr>Text = ''def'', Pos = 3\<rparr> Red NilNode NilNode),
              gapStart = 6, gapEnd = 1048576, length' = 6, chunkSize = 4096\<rparr> = Some ''abcdef''
   \<and> DeleteAt 0 3 \<lparr>tree = Node 0 \<lparr>Text = ''abc'', Pos = 0\<rparr> Black NilNode
                            (Node 3 \<lparr>Text = ''def'', Pos = 3\<rparr> Red NilNode NilNode),
                   gapStart = 6, gapEnd = 1048576, length' = 6, chunkSize = 4096\<rparr> =
     Some (None, \<lparr>tree = Node 1048575 \<lparr>Text = ''def'', Pos = 3\<rparr> Black
                           (Node 1048574 \<lparr>Text = ''abc'', Pos = 0\<rparr> Red NilNode NilNode) NilNode,
                  gapStart = 0, gapEnd = 1048573, length' = 3, chunkSize = 4096\<rparr>)
   \<and> GetText \<lparr>tree = Node 1048575 \<lparr>Text = ''def'', Pos = 3\<rparr> Black
                       (Node 1048574 \<lparr>Text = ''abc'', Pos = 0\<rparr> Red NilNode NilNode) NilNode,
              gapStart = 0, gapEnd = 1048573, length' = 3, chunkSize = 4096\<rparr> = Some ''abcdef''"
  by code_simp

text \<open>
  C3. The check of \<^verbatim>\<open>DeleteAt\<close>, \<^verbatim>\<open>pos < 0 || pos+count > gb.length\<close>, lets a negative
  count through. On a new buffer \<^verbatim>\<open>DeleteAt(0, -1048577)\<close> returns \<^verbatim>\<open>nil\<close> and leaves
  \<^verbatim>\<open>gapEnd\<close> at \<open>- 1\<close>, below \<^verbatim>\<open>gapStart\<close>, which is 0.
\<close>

theorem DeleteAt_negative_count:
  "DeleteAt 0 (- 1048577) New =
     Some (None, \<lparr>tree = NilNode, gapStart = 0, gapEnd = - 1, length' = 1048577,
                  chunkSize = 4096\<rparr>)
   \<and> \<not> gapStart \<lparr>tree = NilNode :: Chunk Node, gapStart = 0, gapEnd = - 1,
                  length' = 1048577, chunkSize = 4096\<rparr>
       \<le> gapEnd \<lparr>tree = NilNode :: Chunk Node, gapStart = 0, gapEnd = - 1,
                  length' = 1048577, chunkSize = 4096\<rparr>"
  by code_simp

text \<open>
  C9. A buffer holds the chunks \<^verbatim>\<open>"a"\<close> at key 0 and \<^verbatim>\<open>"b"\<close> at key 1, after
  \<^verbatim>\<open>InsertAt(0, "a")\<close> and \<^verbatim>\<open>InsertAt(1, "b")\<close>. \<^verbatim>\<open>DeleteAt(2, -1048576)\<close> returns
  \<^verbatim>\<open>nil\<close> and leaves \<^verbatim>\<open>gapEnd\<close> at 0, below \<^verbatim>\<open>gapStart\<close>; the text is still \<^verbatim>\<open>"ab"\<close>.
  Then \<^verbatim>\<open>InsertAt(1, "")\<close> returns \<^verbatim>\<open>nil\<close> and the text is \<^verbatim>\<open>"ba"\<close>: \<^verbatim>\<open>moveGap\<close> puts the
  chunk \<^verbatim>\<open>"b"\<close> at key \<open>- 1\<close>, in front of \<^verbatim>\<open>"a"\<close>, and \<^verbatim>\<open>expandGap(0)\<close>, called because
  the gap size is negative, shifts both chunks in that order.
\<close>

theorem InsertAt_empty_after_negative_delete:
  "InsertAt 0 ''a'' New =
     Some (None, \<lparr>tree = Node 0 \<lparr>Text = ''a'', Pos = 0\<rparr> Black NilNode NilNode,
                  gapStart = 1, gapEnd = 1048576, length' = 1, chunkSize = 4096\<rparr>)
   \<and> InsertAt 1 ''b'' \<lparr>tree = Node 0 \<lparr>Text = ''a'', Pos = 0\<rparr> Black NilNode NilNode,
                       gapStart = 1, gapEnd = 1048576, length' = 1, chunkSize = 4096\<rparr> =
     Some (None, \<lparr>tree = Node 0 \<lparr>Text = ''a'', Pos = 0\<rparr> Black NilNode
                           (Node 1 \<lparr>Text = ''b'', Pos = 1\<rparr> Red NilNode NilNode),
                  gapStart = 2, gapEnd = 1048576, length' = 2, chunkSize = 4096\<rparr>)
   \<and> DeleteAt 2 (- 1048576) \<lparr>tree = Node 0 \<lparr>Text = ''a'', Pos = 0\<rparr> Black NilNode
                                      (Node 1 \<lparr>Text = ''b'', Pos = 1\<rparr> Red NilNode NilNode),
                             gapStart = 2, gapEnd = 1048576, length' = 2, chunkSize = 4096\<rparr> =
     Some (None, \<lparr>tree = Node 0 \<lparr>Text = ''a'', Pos = 0\<rparr> Black NilNode
                           (Node 1 \<lparr>Text = ''b'', Pos = 1\<rparr> Red NilNode NilNode),
                  gapStart = 2, gapEnd = 0, length' = 1048578, chunkSize = 4096\<rparr>)
   \<and> GetText \<lparr>tree = Node 0 \<lparr>Text = ''a'', Pos = 0\<rparr> Black NilNode
                       (Node 1 \<lparr>Text = ''b'', Pos = 1\<rparr> Red NilNode NilNode),
              gapStart = 2, gapEnd = 0, length' = 1048578, chunkSize = 4096\<rparr> = Some ''ab''
   \<and> InsertAt 1 [] \<lparr>tree = Node 0 \<lparr>Text = ''a'', Pos = 0\<rparr> Black NilNode
                             (Node 1 \<lparr>Text = ''b'', Pos = 1\<rparr> Red NilNode NilNode),
                    gapStart = 2, gapEnd = 0, length' = 1048578, chunkSize = 4096\<rparr> =
     Some (None, \<lparr>tree = Node 1 \<lparr>Text = ''b'', Pos = 1\<rparr> Black NilNode
                           (Node 2 \<lparr>Text = ''a'', Pos = 0\<rparr> Red NilNode NilNode),
                  gapStart = 1, gapEnd = 1, length' = 1048578, chunkSize = 4096\<rparr>)
   \<and> GetText \<lparr>tree = Node 1 \<lparr>Text = ''b'', Pos = 1\<rparr> Black NilNode
                       (Node 2 \<lparr>Text = ''a'', Pos = 0\<rparr> Red NilNode NilNode),
              gapStart = 1, gapEnd = 1, length' = 1048578, chunkSize = 4096\<rparr> = Some ''ba''"
  by code_simp

section \<open>Validation failures\<close>

lemma moveGap_length: "moveGap pos gb = Some gb1 \<Longrightarrow> length' gb1 = length' gb"
  by (auto simp: moveGap_def Let_def split: if_splits option.splits)

lemma InsertAt_error:
  "InsertAt pos text gb = Some (Some e, gb') \<Longrightarrow> gb' = gb \<and> (pos < 0 \<or> pos > length' gb)"
  by (auto simp: InsertAt_def split: if_splits option.splits prod.splits)

lemma DeleteAt_error:
  "DeleteAt pos cnt gb = Some (Some e, gb') \<Longrightarrow> gb' = gb"
  by (auto simp: DeleteAt_def Let_def split: if_splits option.splits prod.splits)

lemma DeleteAt_length:
  "DeleteAt pos cnt gb = Some (None, gb') \<Longrightarrow> length' gb' = length' gb - cnt"
  by (auto simp: DeleteAt_def Let_def moveGap_length split: if_splits option.splits prod.splits)

lemma Replace_error:
  assumes "Replace start endp text gb = Some (Some e, gb')"
  shows "gb' = gb"
proof (cases "start < 0 \<or> endp > length' gb \<or> start > endp")
  case True
  with assms show ?thesis by (simp add: Replace_def)
next
  case False
  show ?thesis
  proof (cases "DeleteAt start (endp - start) gb")
    case None
    with assms False show ?thesis by (simp add: Replace_def)
  next
    case (Some r)
    obtain err gb1 where r: "r = (err, gb1)" by (cases r)
    show ?thesis
    proof (cases err)
      case None
      with Some r have d: "DeleteAt start (endp - start) gb = Some (None, gb1)" by simp
      from DeleteAt_length [OF d] False have "\<not> (start < 0 \<or> start > length' gb1)" by simp
      moreover from assms False d have "InsertAt start text gb1 = Some (Some e, gb')"
        by (simp add: Replace_def)
      ultimately show ?thesis using InsertAt_error by blast
    next
      case (Some err')
      with \<open>DeleteAt start (endp - start) gb = Some r\<close> r assms False
      show ?thesis by (auto simp: Replace_def dest: DeleteAt_error)
    qed
  qed
qed

lemma InsertRuneAt_error:
  "InsertRuneAt runePos text gb = Some (Some e, gb') \<Longrightarrow> gb' = gb"
  by (auto simp: InsertRuneAt_def Let_def split: if_splits option.splits dest: InsertAt_error)

lemma DeleteRuneAt_error:
  "DeleteRuneAt runePos runeCount gb = Some (Some e, gb') \<Longrightarrow> gb' = gb"
  by (auto simp: DeleteRuneAt_def Let_def split: if_splits option.splits prod.splits dest: DeleteAt_error)

lemma ReplaceRune_error:
  "ReplaceRune runeStart runeEnd text gb = Some (Some e, gb') \<Longrightarrow> gb' = gb"
  by (auto simp: ReplaceRune_def Let_def split: if_splits option.splits prod.splits dest: Replace_error)

text \<open>
  C8. When a public operation returns an error, the buffer (tree, \<^verbatim>\<open>gapStart\<close>,
  \<^verbatim>\<open>gapEnd\<close>, length, chunk size) is the buffer before the call. This covers
  \<^verbatim>\<open>InsertAt\<close>, \<^verbatim>\<open>DeleteAt\<close>, \<^verbatim>\<open>Replace\<close>, \<^verbatim>\<open>InsertRuneAt\<close>, \<^verbatim>\<open>DeleteRuneAt\<close> and
  \<^verbatim>\<open>ReplaceRune\<close>; for \<^verbatim>\<open>Replace\<close> it includes that the insertion after a successful
  deletion cannot fail its check. \<^verbatim>\<open>GetTextRange\<close> and \<^verbatim>\<open>GetRuneTextRange\<close> assign no
  field of the buffer on any path, which is why their embedding returns no buffer.
\<close>

theorem error_leaves_buffer_unchanged:
  "(InsertAt pos s gb = Some (Some e, gb') \<longrightarrow> gb' = gb)
   \<and> (DeleteAt pos cnt gb = Some (Some e, gb') \<longrightarrow> gb' = gb)
   \<and> (Replace start endp s gb = Some (Some e, gb') \<longrightarrow> gb' = gb)
   \<and> (InsertRuneAt pos s gb = Some (Some e, gb') \<longrightarrow> gb' = gb)
   \<and> (DeleteRuneAt pos cnt gb = Some (Some e, gb') \<longrightarrow> gb' = gb)
   \<and> (ReplaceRune start endp s gb = Some (Some e, gb') \<longrightarrow> gb' = gb)"
  by (auto dest: InsertAt_error DeleteAt_error Replace_error InsertRuneAt_error
        DeleteRuneAt_error ReplaceRune_error)

theorem error_leaves_buffer_unchanged_witness:
  "InsertAt 5 ''x'' New = Some (Some (Error ''position out of range''), New)
   \<and> DeleteAt 0 1 New = Some (Some (Error ''position or count out of range''), New)
   \<and> Replace 1 0 ''x'' New = Some (Some (Error ''invalid range''), New)
   \<and> InsertRuneAt 1 ''x'' New = Some (Some (Error ''rune position out of range''), New)
   \<and> DeleteRuneAt 0 1 New = Some (Some (Error ''rune position out of range''), New)
   \<and> ReplaceRune 1 0 ''x'' New = Some (Some (Error ''invalid rune range''), New)"
proof -
  obtain e1 g1 where a1: "InsertAt 5 ''x'' New = Some (Some e1, g1)"
    and e1: "e1 = Error ''position out of range''"
    by (simp add: InsertAt_def New_def)
  obtain e2 g2 where a2: "DeleteAt 0 1 New = Some (Some e2, g2)"
    and e2: "e2 = Error ''position or count out of range''"
    by (simp add: DeleteAt_def New_def)
  obtain e3 g3 where a3: "Replace 1 0 ''x'' New = Some (Some e3, g3)"
    and e3: "e3 = Error ''invalid range''"
    by (simp add: Replace_def New_def)
  have "InsertRuneAt 1 ''x'' New = Some (Some (Error ''rune position out of range''), New)"
    by code_simp
  then obtain e4 g4 where a4: "InsertRuneAt 1 ''x'' New = Some (Some e4, g4)"
    and e4: "e4 = Error ''rune position out of range''"
    by simp
  have "DeleteRuneAt 0 1 New = Some (Some (Error ''rune position out of range''), New)"
    by code_simp
  then obtain e5 g5 where a5: "DeleteRuneAt 0 1 New = Some (Some e5, g5)"
    and e5: "e5 = Error ''rune position out of range''"
    by simp
  obtain e6 g6 where a6: "ReplaceRune 1 0 ''x'' New = Some (Some e6, g6)"
    and e6: "e6 = Error ''invalid rune range''"
    by (simp add: ReplaceRune_def New_def)
  from error_leaves_buffer_unchanged [where pos = 5 and s = "''x''" and gb = New
      and e = e1 and gb' = g1] a1
  have "g1 = New" by blast
  moreover
  from error_leaves_buffer_unchanged [where pos = 0 and cnt = 1 and gb = New
      and e = e2 and gb' = g2] a2
  have "g2 = New" by blast
  moreover
  from error_leaves_buffer_unchanged [where start = 1 and endp = 0 and s = "''x''"
      and gb = New and e = e3 and gb' = g3] a3
  have "g3 = New" by blast
  moreover
  from error_leaves_buffer_unchanged [where pos = 1 and s = "''x''" and gb = New
      and e = e4 and gb' = g4] a4
  have "g4 = New" by blast
  moreover
  from error_leaves_buffer_unchanged [where pos = 0 and cnt = 1 and gb = New
      and e = e5 and gb' = g5] a5
  have "g5 = New" by blast
  moreover
  from error_leaves_buffer_unchanged [where start = 1 and endp = 0 and s = "''x''"
      and gb = New and e = e6 and gb' = g6] a6
  have "g6 = New" by blast
  ultimately show ?thesis using a1 a2 a3 a4 a5 a6 e1 e2 e3 e4 e5 e6 by simp
qed

section \<open>\<^verbatim>\<open>GetTextRange\<close> returns valid UTF-8\<close>

declare skip_continuation.simps [simp del] find_runeLen.simps [simp del]
  bytes_valid.simps [simp del] trim_end.simps [simp del]
  Valid.simps [simp del] valid_runes.simps [simp del] RuneCountInString.simps [simp del]
  rune_walk.simps [simp del] chunk_backoff.simps [simp del]










lemma mod64: "0 \<le> (r::int) mod 64 \<and> r mod 64 < 64" by simp














end
